theory Spec2Isabelle
  imports Main
begin

section \<open>Python values, strings and dictionaries\<close>

text \<open>
  The extra-spec values that reach \<open>manila/share_group/group_types.py\<close> and
  \<open>manila/share_group/api.py\<close> are dynamically typed. The values the code and its tests
  distinguish are \<open>None\<close>, booleans, integers and strings.

  A string is a list of code points below 256 (the type \<open>char\<close>). Whitespace and lower-casing
  follow Python 3's \<open>str.isspace\<close> and \<open>str.lower\<close> on that range; the same whitespace class
  is the one \<open>\s\<close> denotes in a \<open>str\<close> pattern of the \<open>re\<close> module.
\<close>

datatype pyval = PyNone | PyBool bool | PyInt int | PyStr string

definition isspace :: "char \<Rightarrow> bool" where
  "isspace c = ((of_char c :: nat) \<in> {9, 10, 11, 12, 13, 28, 29, 30, 31, 32, 133, 160})"

definition lower_char :: "char \<Rightarrow> char" where
  "lower_char c =
     (let n = (of_char c :: nat)
      in if (65 \<le> n \<and> n \<le> 90) \<or> (192 \<le> n \<and> n \<le> 222 \<and> n \<noteq> 215)
         then char_of (n + 32) else c)"

definition lower :: "string \<Rightarrow> string" where
  "lower s = map lower_char s"

definition strip :: "string \<Rightarrow> string" where
  "strip s = rev (dropWhile isspace (rev (dropWhile isspace s)))"

fun str_nat :: "nat \<Rightarrow> string" where
  "str_nat n =
     (if n < 10 then [char_of (48 + n)]
      else str_nat (n div 10) @ [char_of (48 + n mod 10)])"

declare str_nat.simps [simp del]

text \<open>\<open>six.text_type(value)\<close>, also what \<open>%s\<close> formatting prints.\<close>

fun py_str :: "pyval \<Rightarrow> string" where
  "py_str PyNone = ''None''"
| "py_str (PyBool b) = (if b then ''True'' else ''False'')"
| "py_str (PyInt i) = (if i < 0 then ''-'' @ str_nat (nat (- i)) else str_nat (nat i))"
| "py_str (PyStr s) = s"

text \<open>
  Python's \<open>==\<close> on these values: a boolean is an integer (\<open>True == 1\<close>), every other
  pair of values of different types is unequal.
\<close>

fun py_eq :: "pyval \<Rightarrow> pyval \<Rightarrow> bool" where
  "py_eq (PyBool a) (PyInt i) = ((if a then 1 else 0) = i)"
| "py_eq (PyInt i) (PyBool a) = (i = (if a then 1 else 0))"
| "py_eq x y = (x = y)"

text \<open>
  A dictionary is an association list with distinct keys, in insertion order.
  \<open>d.get(k)\<close> gives \<open>None\<close> for an absent key, \<open>k in d\<close> tests presence, and \<open>d[k] = v\<close>
  replaces the value of a present key in place or appends a new entry.
\<close>

type_synonym 'v dict = "(string \<times> 'v) list"

definition dict_ok :: "'v dict \<Rightarrow> bool" where
  "dict_ok d = distinct (map fst d)"

definition dict_contains :: "'v dict \<Rightarrow> string \<Rightarrow> bool" where
  "dict_contains d k = (k \<in> set (map fst d))"

definition dict_get :: "pyval dict \<Rightarrow> string \<Rightarrow> pyval" where
  "dict_get d k = (case map_of d k of None \<Rightarrow> PyNone | Some v \<Rightarrow> v)"

fun dict_set :: "'v dict \<Rightarrow> string \<Rightarrow> 'v \<Rightarrow> 'v dict" where
  "dict_set [] k v = [(k, v)]"
| "dict_set ((k', v') # d) k v = (if k' = k then (k, v) # d else (k', v') # dict_set d k v)"

section \<open>Exceptions\<close>

text \<open>
  Every exception class the two modules raise, catch or let through is a constructor; the
  argument is the message (\<open>reason\<close>) or the identifier the exception reports.
\<close>

datatype error =
    is_ValueError: ValueError string
  | is_InvalidExtraSpec: InvalidExtraSpec string
  | InvalidShareGroupType string
  | is_InvalidInput: InvalidInput string
  | is_InvalidGroupSnapshot: InvalidGroupSnapshot string
  | is_InvalidShareGroup: InvalidShareGroup string
  | ShareGroupNotFound string
  | ShareGroupSnapshotNotFound string
  | is_ShareGroupTypeNotFound: ShareGroupTypeNotFound "string option"
  | is_ShareTypeNotFound: ShareTypeNotFound string
  | is_ShareNetworkNotFound: ShareNetworkNotFound string
  | ShareNotFound string
  | ShareInstanceNotFound string
  | DBDuplicateEntry string
  | ShareProvisioningError string

section \<open>\<open>oslo_utils.strutils.bool_from_string\<close>\<close>

text \<open>
  The library function both modules call. A boolean is returned as it is, any other
  non-string is converted with \<open>six.text_type\<close>; the text is stripped and lower-cased and
  looked up in the two tables. An unknown text raises \<open>ValueError\<close> when \<open>strict\<close>, and
  gives \<open>default\<close> otherwise.
\<close>

definition TRUE_STRINGS :: "string list" where
  "TRUE_STRINGS = [''1'', ''t'', ''true'', ''on'', ''y'', ''yes'']"

definition FALSE_STRINGS :: "string list" where
  "FALSE_STRINGS = [''0'', ''f'', ''false'', ''off'', ''n'', ''no'']"

definition bool_from_string :: "pyval \<Rightarrow> bool \<Rightarrow> bool \<Rightarrow> error + bool" where
  "bool_from_string subject strict dflt =
     (case subject of
        PyBool b \<Rightarrow> Inr b
      | _ \<Rightarrow>
          (let lowered = lower (strip (py_str subject))
           in if lowered \<in> set TRUE_STRINGS then Inr True
              else if lowered \<in> set FALSE_STRINGS then Inr False
              else if strict then Inl (ValueError (''Unrecognized value '' @ py_str subject))
              else Inr dflt))"

section \<open>\<open>group_types.parse_boolean_extra_spec\<close>\<close>










section \<open>Records of the store\<close>

text \<open>
  The rows of the record store that the two modules read and write, with the fields they
  touch. A nullable column is an \<open>option\<close>; \<open>share_types\<close> of a group or of a group type is
  the list of the \<open>share_type_id\<close>s of its mapping rows.
\<close>

record request_context =
  ctx_user_id :: string
  ctx_project_id :: string

record share_type =
  st_id :: string
  st_extra_specs :: "pyval dict option"

record share_group_type =
  gt_id :: string
  gt_name :: string
  gt_extra_specs :: "pyval dict option"
  gt_share_types :: "string list"

record share_group =
  sg_id :: string
  sg_name :: "string option"
  sg_description :: "string option"
  sg_user_id :: string
  sg_project_id :: string
  sg_status :: string
  sg_host :: "string option"
  sg_share_group_type_id :: "string option"
  sg_source_group_snapshot_id :: "string option"
  sg_share_network_id :: "string option"
  sg_share_server_id :: "string option"
  sg_share_types :: "string list"

record share =
  sh_id :: string
  sh_status :: string
  sh_share_group_id :: "string option"
  sh_share_type_id :: string
  sh_size :: int
  sh_share_proto :: string
  sh_instance_id :: string

record share_instance =
  si_id :: string
  si_share_id :: string

record group_snapshot =
  gs_id :: string
  gs_name :: "string option"
  gs_description :: "string option"
  gs_user_id :: string
  gs_project_id :: string
  gs_status :: string
  gs_share_group_id :: string

record group_snapshot_member =
  gsm_id :: string
  gsm_group_snapshot_id :: string
  gsm_user_id :: string
  gsm_project_id :: string
  gsm_status :: string
  gsm_size :: int
  gsm_share_proto :: string
  gsm_share_id :: string
  gsm_share_instance_id :: string

text \<open>The \<open>options\<close> dictionaries the API hands to the store's create operations.\<close>

record group_options =
  o_share_group_type_id :: "string option"
  o_source_group_snapshot_id :: "string option"
  o_share_network_id :: "string option"
  o_share_server_id :: "string option"
  o_name :: "string option"
  o_description :: "string option"
  o_user_id :: string
  o_project_id :: string
  o_status :: string
  o_share_types :: "string list"
  o_host :: "string option"

record snapshot_options =
  so_share_group_id :: string
  so_name :: "string option"
  so_description :: "string option"
  so_user_id :: string
  so_project_id :: string
  so_status :: string

record member_options =
  mo_group_snapshot_id :: string
  mo_user_id :: string
  mo_project_id :: string
  mo_status :: string
  mo_size :: int
  mo_share_proto :: string
  mo_share_id :: string
  mo_share_instance_id :: string

text \<open>
  The request of \<open>share_api.create\<close> in the clone loop, and the scheduler's request
  specification.
\<close>

record share_request =
  rq_share_proto :: string
  rq_size :: int
  rq_share_group_id :: string
  rq_group_snapshot_member :: group_snapshot_member
  rq_member_share_instance :: share_instance
  rq_share_type :: share_type
  rq_share_network_id :: "string option"

record request_spec =
  rs_share_group_id :: string
  rs_options :: group_options
  rs_share_types :: "share_type list"
  rs_resource_type :: share_group_type

text \<open>The messages cast to the scheduler and to the backend hosts.\<close>

datatype cast =
    SchedulerCreateShareGroup string request_spec
  | BackendCreateShareGroup share_group "string option"
  | BackendDeleteShareGroup share_group
  | BackendCreateGroupSnapshot group_snapshot "string option"

text \<open>
  The world a call runs in: the tables of the store, the messages sent so far, and the
  identifiers \<open>uuidutils.generate_uuid\<close> will hand out.
\<close>

record world =
  share_groups :: "share_group list"
  group_snapshots :: "group_snapshot list"
  group_snapshot_members :: "group_snapshot_member list"
  shares :: "share list"
  share_instances :: "share_instance list"
  share_types :: "share_type list"
  share_networks :: "string list"
  share_group_types :: "share_group_type list"
  casts :: "cast list"
  uuid_source :: "nat \<Rightarrow> string"
  uuid_next :: nat

section \<open>Constants of \<open>manila.common.constants\<close>\<close>

definition STATUS_CREATING :: string where "STATUS_CREATING = ''creating''"
definition STATUS_AVAILABLE :: string where "STATUS_AVAILABLE = ''available''"
definition STATUS_ERROR :: string where "STATUS_ERROR = ''error''"
definition STATUS_DELETING :: string where "STATUS_DELETING = ''deleting''"

definition DRIVER_HANDLES_SHARE_SERVERS :: string where
  "DRIVER_HANDLES_SHARE_SERVERS = ''driver_handles_share_servers''"

section \<open>The record store and the other collaborators\<close>

text \<open>
  Modelled from the spec: the Record Store (\<open>manila.db\<close>), which is not part of the
  sources at hand. It supports get, create, update and destroy by id and filtered listing.
  A get or a destroy of a missing record raises the \<open>NotFound\<close> exception of its entity; a
  create assigns a fresh identifier and appends the row; a destroy of a group snapshot
  cascades to its members.
\<close>

definition generate_uuid :: "world \<Rightarrow> string \<times> world" where
  "generate_uuid w = (uuid_source w (uuid_next w), w\<lparr>uuid_next := Suc (uuid_next w)\<rparr>)"

definition db_share_group_get :: "world \<Rightarrow> string \<Rightarrow> error + share_group" where
  "db_share_group_get w share_group_id =
     (case find (\<lambda>g. sg_id g = share_group_id) (share_groups w) of
        None \<Rightarrow> Inl (ShareGroupNotFound share_group_id)
      | Some g \<Rightarrow> Inr g)"

definition db_group_snapshot_get :: "world \<Rightarrow> string \<Rightarrow> error + group_snapshot" where
  "db_group_snapshot_get w group_snapshot_id =
     (case find (\<lambda>s. gs_id s = group_snapshot_id) (group_snapshots w) of
        None \<Rightarrow> Inl (ShareGroupSnapshotNotFound group_snapshot_id)
      | Some s \<Rightarrow> Inr s)"

definition db_group_type_get :: "world \<Rightarrow> string option \<Rightarrow> error + share_group_type" where
  "db_group_type_get w type_id =
     (case type_id of
        None \<Rightarrow> Inl (ShareGroupTypeNotFound None)
      | Some i \<Rightarrow>
          (case find (\<lambda>t. gt_id t = i) (share_group_types w) of
             None \<Rightarrow> Inl (ShareGroupTypeNotFound type_id)
           | Some t \<Rightarrow> Inr t))"

definition db_share_network_get :: "world \<Rightarrow> string \<Rightarrow> error + string" where
  "db_share_network_get w share_network_id =
     (if share_network_id \<in> set (share_networks w) then Inr share_network_id
      else Inl (ShareNetworkNotFound share_network_id))"

definition db_share_get :: "world \<Rightarrow> string \<Rightarrow> error + share" where
  "db_share_get w share_id =
     (case find (\<lambda>s. sh_id s = share_id) (shares w) of
        None \<Rightarrow> Inl (ShareNotFound share_id)
      | Some s \<Rightarrow> Inr s)"

definition db_share_instance_get :: "world \<Rightarrow> string \<Rightarrow> error + share_instance" where
  "db_share_instance_get w instance_id =
     (case find (\<lambda>i. si_id i = instance_id) (share_instances w) of
        None \<Rightarrow> Inl (ShareInstanceNotFound instance_id)
      | Some i \<Rightarrow> Inr i)"

definition db_group_snapshot_members_get_all ::
  "world \<Rightarrow> string option \<Rightarrow> group_snapshot_member list" where
  "db_group_snapshot_members_get_all w group_snapshot_id =
     filter (\<lambda>m. Some (gsm_group_snapshot_id m) = group_snapshot_id)
       (group_snapshot_members w)"

definition db_share_get_all_by_share_group_id :: "world \<Rightarrow> string \<Rightarrow> share list" where
  "db_share_get_all_by_share_group_id w share_group_id =
     filter (\<lambda>s. sh_share_group_id s = Some share_group_id) (shares w)"

definition db_count_group_snapshots_in_share_group :: "world \<Rightarrow> string \<Rightarrow> nat" where
  "db_count_group_snapshots_in_share_group w share_group_id =
     length (filter (\<lambda>s. gs_share_group_id s = share_group_id) (group_snapshots w))"

definition db_count_shares_in_share_group :: "world \<Rightarrow> string \<Rightarrow> nat" where
  "db_count_shares_in_share_group w share_group_id =
     length (filter (\<lambda>s. sh_share_group_id s = Some share_group_id) (shares w))"

definition db_share_group_create ::
  "group_options \<Rightarrow> world \<Rightarrow> (error + share_group) \<times> world" where
  "db_share_group_create values w =
     (let (new_id, w1) = generate_uuid w
      in if new_id \<in> set (map sg_id (share_groups w1)) then (Inl (DBDuplicateEntry new_id), w1)
         else
           (let group = \<lparr> sg_id = new_id, sg_name = o_name values,
                          sg_description = o_description values,
                          sg_user_id = o_user_id values, sg_project_id = o_project_id values,
                          sg_status = o_status values, sg_host = o_host values,
                          sg_share_group_type_id = o_share_group_type_id values,
                          sg_source_group_snapshot_id = o_source_group_snapshot_id values,
                          sg_share_network_id = o_share_network_id values,
                          sg_share_server_id = o_share_server_id values,
                          sg_share_types = o_share_types values \<rparr>
            in (Inr group, w1\<lparr>share_groups := share_groups w1 @ [group]\<rparr>)))"

definition db_share_group_destroy :: "string \<Rightarrow> world \<Rightarrow> (error + unit) \<times> world" where
  "db_share_group_destroy share_group_id w =
     (case db_share_group_get w share_group_id of
        Inl e \<Rightarrow> (Inl e, w)
      | Inr g \<Rightarrow>
          (Inr (), w\<lparr>share_groups := filter (\<lambda>g. sg_id g \<noteq> share_group_id) (share_groups w)\<rparr>))"

definition db_share_group_update ::
  "string \<Rightarrow> (share_group \<Rightarrow> share_group) \<Rightarrow> world \<Rightarrow> (error + share_group) \<times> world" where
  "db_share_group_update share_group_id upd w =
     (case db_share_group_get w share_group_id of
        Inl e \<Rightarrow> (Inl e, w)
      | Inr g \<Rightarrow>
          (Inr (upd g),
           w\<lparr>share_groups :=
               map (\<lambda>g. if sg_id g = share_group_id then upd g else g) (share_groups w)\<rparr>))"

definition db_group_snapshot_create ::
  "snapshot_options \<Rightarrow> world \<Rightarrow> (error + group_snapshot) \<times> world" where
  "db_group_snapshot_create values w =
     (let (new_id, w1) = generate_uuid w
      in if new_id \<in> set (map gs_id (group_snapshots w1))
         then (Inl (DBDuplicateEntry new_id), w1)
         else
           (let snap = \<lparr> gs_id = new_id, gs_name = so_name values,
                         gs_description = so_description values,
                         gs_user_id = so_user_id values, gs_project_id = so_project_id values,
                         gs_status = so_status values,
                         gs_share_group_id = so_share_group_id values \<rparr>
            in (Inr snap, w1\<lparr>group_snapshots := group_snapshots w1 @ [snap]\<rparr>)))"

definition db_group_snapshot_member_create ::
  "member_options \<Rightarrow> world \<Rightarrow> (error + group_snapshot_member) \<times> world" where
  "db_group_snapshot_member_create values w =
     (let (new_id, w1) = generate_uuid w
      in if new_id \<in> set (map gsm_id (group_snapshot_members w1))
         then (Inl (DBDuplicateEntry new_id), w1)
         else
           (let member = \<lparr> gsm_id = new_id,
                           gsm_group_snapshot_id = mo_group_snapshot_id values,
                           gsm_user_id = mo_user_id values,
                           gsm_project_id = mo_project_id values,
                           gsm_status = mo_status values, gsm_size = mo_size values,
                           gsm_share_proto = mo_share_proto values,
                           gsm_share_id = mo_share_id values,
                           gsm_share_instance_id = mo_share_instance_id values \<rparr>
            in (Inr member,
                w1\<lparr>group_snapshot_members := group_snapshot_members w1 @ [member]\<rparr>)))"

definition db_group_snapshot_destroy :: "string \<Rightarrow> world \<Rightarrow> (error + unit) \<times> world" where
  "db_group_snapshot_destroy group_snapshot_id w =
     (case db_group_snapshot_get w group_snapshot_id of
        Inl e \<Rightarrow> (Inl e, w)
      | Inr s \<Rightarrow>
          (Inr (),
           w\<lparr>group_snapshots :=
               filter (\<lambda>s. gs_id s \<noteq> group_snapshot_id) (group_snapshots w),
             group_snapshot_members :=
               filter (\<lambda>m. gsm_group_snapshot_id m \<noteq> group_snapshot_id)
                 (group_snapshot_members w)\<rparr>))"

text \<open>
  Modelled from the spec: \<open>manila.share.share_types.get_share_type\<close>, which resolves a
  share type by id and raises \<open>ShareTypeNotFound\<close> for an unknown one.
\<close>

definition get_share_type :: "world \<Rightarrow> string \<Rightarrow> error + share_type" where
  "get_share_type w share_type_id =
     (case find (\<lambda>t. st_id t = share_type_id) (share_types w) of
        None \<Rightarrow> Inl (ShareTypeNotFound share_type_id)
      | Some t \<Rightarrow> Inr t)"

text \<open>
  Modelled from the spec: the Share Provisioning Service (\<open>manila.share.API.create\<close>), which
  creates one share from a request or raises. What it decides is a parameter of the model:
  a function from the request and the world to the new share or to the exception. A share
  it creates is appended to the store.
\<close>

type_synonym provisioner = "share_request \<Rightarrow> world \<Rightarrow> error + share"

definition share_api_create ::
  "provisioner \<Rightarrow> share_request \<Rightarrow> world \<Rightarrow> (error + share) \<times> world" where
  "share_api_create provision request w =
     (case provision request w of
        Inl e \<Rightarrow> (Inl e, w)
      | Inr new_share \<Rightarrow> (Inr new_share, w\<lparr>shares := shares w @ [new_share]\<rparr>))"

text \<open>
  Modelled from the spec: the Scheduler Dispatcher and the Backend Dispatcher
  (\<open>manila.scheduler.rpcapi\<close>, \<open>manila.share.rpcapi\<close>). A cast returns once the message is
  accepted; the world records it.
\<close>

definition rpc_cast :: "cast \<Rightarrow> world \<Rightarrow> world" where
  "rpc_cast message w = w\<lparr>casts := casts w @ [message]\<rparr>"

text \<open>Python's truth value of an optional string: \<open>None\<close> and the empty string are false.\<close>

definition truthy :: "string option \<Rightarrow> bool" where
  "truthy x = (case x of None \<Rightarrow> False | Some s \<Rightarrow> s \<noteq> [])"


section \<open>\<open>group_types.get_group_type\<close> and \<open>group_types.group_types_diff\<close>\<close>

definition get_group_type :: "world \<Rightarrow> string option \<Rightarrow> error + share_group_type" where
  "get_group_type w type_id =
     (case type_id of
        None \<Rightarrow> Inl (InvalidShareGroupType ''id cannot be None'')
      | Some i \<Rightarrow> db_group_type_get w type_id)"

text \<open>
  The nested function \<open>_dict_diff\<close>. Each of its two loops runs over the items of one
  dictionary, stores the pair of values under the key and clears \<open>equal\<close> when the key is
  missing on the other side or the two components of the stored pair differ.
\<close>

fun dict_diff_loop1 ::
  "pyval dict \<Rightarrow> pyval dict \<Rightarrow> (pyval \<times> pyval) dict \<times> bool \<Rightarrow> (pyval \<times> pyval) dict \<times> bool"
where
  "dict_diff_loop1 [] dict2 (res, equal) = (res, equal)"
| "dict_diff_loop1 ((k, v) # items) dict2 (res, equal) =
     (let entry = (v, dict_get dict2 k);
          res' = dict_set res k entry;
          equal' = (if \<not> dict_contains dict2 k \<or> \<not> py_eq (fst entry) (snd entry)
                    then False else equal)
      in dict_diff_loop1 items dict2 (res', equal'))"

fun dict_diff_loop2 ::
  "pyval dict \<Rightarrow> pyval dict \<Rightarrow> (pyval \<times> pyval) dict \<times> bool \<Rightarrow> (pyval \<times> pyval) dict \<times> bool"
where
  "dict_diff_loop2 [] dict1 (res, equal) = (res, equal)"
| "dict_diff_loop2 ((k, v) # items) dict1 (res, equal) =
     (let entry = (dict_get dict1 k, v);
          res' = dict_set res k entry;
          equal' = (if \<not> dict_contains dict1 k \<or> \<not> py_eq (fst entry) (snd entry)
                    then False else equal)
      in dict_diff_loop2 items dict1 (res', equal'))"

definition dict_diff ::
  "pyval dict option \<Rightarrow> pyval dict option \<Rightarrow> (pyval \<times> pyval) dict \<times> bool" where
  "dict_diff d1 d2 =
     (let dict1 = (case d1 of None \<Rightarrow> [] | Some d \<Rightarrow> d);
          dict2 = (case d2 of None \<Rightarrow> [] | Some d \<Rightarrow> d)
      in dict_diff_loop2 dict2 dict1 (dict_diff_loop1 dict1 dict2 ([], True)))"

definition group_types_diff ::
  "world \<Rightarrow> string option \<Rightarrow> string option \<Rightarrow>
   error + ((pyval \<times> pyval) dict) dict \<times> bool" where
  "group_types_diff w group_type_id1 group_type_id2 =
     (case get_group_type w group_type_id1 of
        Inl e \<Rightarrow> Inl e
      | Inr group_type1 \<Rightarrow>
          (case get_group_type w group_type_id2 of
             Inl e \<Rightarrow> Inl e
           | Inr group_type2 \<Rightarrow>
               (let extra_specs1 = gt_extra_specs group_type1;
                    extra_specs2 = gt_extra_specs group_type2;
                    (res, equal) = dict_diff extra_specs1 extra_specs2;
                    diff = [(''extra_specs'', res)];
                    all_equal = (if \<not> equal then False else True)
                in Inr (diff, all_equal))))"

section \<open>\<open>share_group.api.API.create\<close>\<close>

text \<open>
  Lines 55 to 74: with a source group snapshot, the snapshot must be available, and the
  share types, the share network and the share server are those of its group. The result
  is \<open>(group_snapshot, original_group, share_type_ids, share_network_id, share_server_id)\<close>.
\<close>

definition create_source ::
  "world \<Rightarrow> string list option \<Rightarrow> string option \<Rightarrow> string option \<Rightarrow>
   error + (group_snapshot option \<times> share_group option \<times> string list option
            \<times> string option \<times> string option)" where
  "create_source w share_type_ids source_group_snapshot_id share_network_id =
     (case source_group_snapshot_id of
        None \<Rightarrow> Inr (None, None, share_type_ids, share_network_id, None)
      | Some snapshot_id \<Rightarrow>
          if snapshot_id = [] then Inr (None, None, share_type_ids, share_network_id, None)
          else
            (case db_group_snapshot_get w snapshot_id of
               Inl e \<Rightarrow> Inl e
             | Inr group_snapshot \<Rightarrow>
                 if gs_status group_snapshot \<noteq> STATUS_AVAILABLE
                 then Inl (InvalidGroupSnapshot
                             (''Share group snapshot status must be '' @ STATUS_AVAILABLE))
                 else
                   (case db_share_group_get w (gs_share_group_id group_snapshot) of
                      Inl e \<Rightarrow> Inl e
                    | Inr original_group \<Rightarrow>
                        Inr (Some group_snapshot, Some original_group,
                             Some (sg_share_types original_group),
                             sg_share_network_id original_group,
                             sg_share_server_id original_group))))"

text \<open>
  Lines 76 to 107: the loop over the share type ids, with the list of resolved share types
  and the flag \<open>driver_handles_share_servers\<close> (\<open>None\<close> until a share type with extra specs
  sets it) as its state.
\<close>

fun create_share_types ::
  "world \<Rightarrow> string option \<Rightarrow> string list \<Rightarrow> share_type list \<Rightarrow> bool option \<Rightarrow>
   error + (share_type list \<times> bool option)" where
  "create_share_types w share_network_id [] share_type_objects dhss =
     Inr (share_type_objects, dhss)"
| "create_share_types w share_network_id (share_type_id # rest) share_type_objects dhss =
     (case get_share_type w share_type_id of
        Inl e \<Rightarrow>
          if is_ShareTypeNotFound e
          then Inl (InvalidInput
                      (''Share type with id '' @ share_type_id @ '' could not be found''))
          else Inl e
      | Inr share_type_object \<Rightarrow>
          (case st_extra_specs share_type_object of
             None \<Rightarrow>
               create_share_types w share_network_id rest
                 (share_type_objects @ [share_type_object]) dhss
           | Some extra_specs \<Rightarrow>
               if extra_specs = []
               then create_share_types w share_network_id rest
                      (share_type_objects @ [share_type_object]) dhss
               else
                 (case bool_from_string
                         (dict_get extra_specs DRIVER_HANDLES_SHARE_SERVERS) False False of
                    Inl e \<Rightarrow> Inl e
                  | Inr share_type_handle_ss \<Rightarrow>
                      if dhss \<noteq> None \<and> dhss \<noteq> Some share_type_handle_ss
                      then Inl (InvalidInput
                                  (''The specified share_types cannot have ''
                                   @ ''conflicting values for the ''
                                   @ ''driver_handles_share_servers extra spec.''))
                      else if \<not> share_type_handle_ss \<and> truthy share_network_id
                      then Inl (InvalidInput
                                  (''When using a share types with the ''
                                   @ ''driver_handles_share_servers extra spec as ''
                                   @ ''False, a share_network_id must not be provided.''))
                      else create_share_types w share_network_id rest
                             (share_type_objects @ [share_type_object])
                             (Some share_type_handle_ss))))"

text \<open>Lines 109 to 114: a share network that is given must exist.\<close>

definition create_check_share_network :: "world \<Rightarrow> string option \<Rightarrow> error + unit" where
  "create_check_share_network w share_network_id =
     (case share_network_id of
        None \<Rightarrow> Inr ()
      | Some network_id \<Rightarrow>
          if network_id = [] then Inr ()
          else
            (case db_share_network_get w network_id of
               Inl e \<Rightarrow>
                 if is_ShareNetworkNotFound e
                 then Inl (InvalidInput ''The specified share network does not exist.'')
                 else Inl e
             | Inr n \<Rightarrow> Inr ()))"

text \<open>Lines 123 to 127: the share group type must exist.\<close>

definition create_group_type :: "world \<Rightarrow> string option \<Rightarrow> error + share_group_type" where
  "create_group_type w share_group_type_id =
     (case db_group_type_get w share_group_type_id of
        Inl e \<Rightarrow>
          if is_ShareGroupTypeNotFound e
          then Inl (InvalidInput ''The specified share group type does not exist.'')
          else Inl e
      | Inr group_type \<Rightarrow> Inr group_type)"

text \<open>
  Lines 137 to 150: the \<open>options\<close> of the new group. The set \<open>supported_share_types\<close>,
  when it becomes the value of \<open>share_types\<close>, is listed without repetition.
\<close>

definition create_options ::
  "request_context \<Rightarrow> string option \<Rightarrow> string option \<Rightarrow> string list option \<Rightarrow>
   string option \<Rightarrow> string option \<Rightarrow> string option \<Rightarrow> string option \<Rightarrow>
   share_group_type \<Rightarrow> share_group option \<Rightarrow> group_options" where
  "create_options ctx name description share_type_ids source_group_snapshot_id
       share_network_id share_server_id share_group_type_id group_type original_group =
     \<lparr> o_share_group_type_id = share_group_type_id,
       o_source_group_snapshot_id = source_group_snapshot_id,
       o_share_network_id = share_network_id,
       o_share_server_id = share_server_id,
       o_name = name,
       o_description = description,
       o_user_id = ctx_user_id ctx,
       o_project_id = ctx_project_id ctx,
       o_status = STATUS_CREATING,
       o_share_types =
         (case share_type_ids of
            None \<Rightarrow> remdups (gt_share_types group_type)
          | Some ids \<Rightarrow> if ids = [] then remdups (gt_share_types group_type) else ids),
       o_host = (case original_group of None \<Rightarrow> None | Some g \<Rightarrow> sg_host g) \<rparr>"

text \<open>
  Lines 55 to 150: everything before the group is persisted. None of it writes. The
  result is \<open>(group_snapshot, original_group, share_network_id, share_type_objects,
  group_type, options)\<close>.
\<close>

definition create_validate ::
  "request_context \<Rightarrow> string option \<Rightarrow> string option \<Rightarrow> string list option \<Rightarrow>
   string option \<Rightarrow> string option \<Rightarrow> string option \<Rightarrow> world \<Rightarrow>
   error + (group_snapshot option \<times> share_group option \<times> string option
            \<times> share_type list \<times> share_group_type \<times> group_options)" where
  "create_validate ctx name description share_type_ids0 source_group_snapshot_id
       share_network_id0 share_group_type_id w =
     (case create_source w share_type_ids0 source_group_snapshot_id share_network_id0 of
        Inl e \<Rightarrow> Inl e
      | Inr (group_snapshot, original_group, share_type_ids, share_network_id,
             share_server_id) \<Rightarrow>
          (case create_share_types w share_network_id
                  (case share_type_ids of None \<Rightarrow> [] | Some ids \<Rightarrow> ids) [] None of
             Inl e \<Rightarrow> Inl e
           | Inr (share_type_objects, driver_handles_share_servers) \<Rightarrow>
               (case create_check_share_network w share_network_id of
                  Inl e \<Rightarrow> Inl e
                | Inr u \<Rightarrow>
                    if driver_handles_share_servers = Some True
                       \<and> \<not> (truthy source_group_snapshot_id \<or> truthy share_network_id)
                    then Inl (InvalidInput
                                (''When using a share type with the ''
                                 @ ''driver_handles_share_servers extra spec as ''
                                 @ ''True, a share_network_id must be provided.''))
                    else
                      (case create_group_type w share_group_type_id of
                         Inl e \<Rightarrow> Inl e
                       | Inr group_type \<Rightarrow>
                           (let supported_share_types = set (gt_share_types group_type)
                            in if \<not> set (case share_type_ids of None \<Rightarrow> [] | Some ids \<Rightarrow> ids)
                                      \<subseteq> supported_share_types
                               then Inl (InvalidInput
                                           (''The specified share types must be a subset of ''
                                            @ ''the share types supported by the share ''
                                            @ ''group type.''))
                               else Inr (group_snapshot, original_group, share_network_id,
                                         share_type_objects, group_type,
                                         create_options ctx name description share_type_ids
                                           source_group_snapshot_id share_network_id
                                           share_server_id share_group_type_id group_type
                                           original_group))))))"

text \<open>
  Lines 155 to 170, the body of the \<open>try\<close>: one new share per member of the source
  snapshot. The loop stops at the first exception.
\<close>

fun create_member_shares ::
  "provisioner \<Rightarrow> share_group \<Rightarrow> string option \<Rightarrow> group_snapshot_member list \<Rightarrow> world \<Rightarrow>
   (error + unit) \<times> world" where
  "create_member_shares provision grp share_network_id [] w = (Inr (), w)"
| "create_member_shares provision grp share_network_id (member # members) w =
     (case db_share_get w (gsm_share_id member) of
        Inl e \<Rightarrow> (Inl e, w)
      | Inr member_share \<Rightarrow>
          (case get_share_type w (sh_share_type_id member_share) of
             Inl e \<Rightarrow> (Inl e, w)
           | Inr share_type \<Rightarrow>
               (case db_share_instance_get w (gsm_share_instance_id member) of
                  Inl e \<Rightarrow> (Inl e, w)
                | Inr instance \<Rightarrow>
                    (case share_api_create provision
                            \<lparr> rq_share_proto = gsm_share_proto member,
                              rq_size = gsm_size member,
                              rq_share_group_id = sg_id grp,
                              rq_group_snapshot_member = member,
                              rq_member_share_instance = instance,
                              rq_share_type = share_type,
                              rq_share_network_id = share_network_id \<rparr> w of
                       (Inl e, w1) \<Rightarrow> (Inl e, w1)
                     | (Inr new_share, w1) \<Rightarrow>
                         create_member_shares provision grp share_network_id
                           members w1))))"

definition create_clone ::
  "provisioner \<Rightarrow> share_group \<Rightarrow> group_snapshot option \<Rightarrow> string option \<Rightarrow>
   string option \<Rightarrow> world \<Rightarrow> (error + unit) \<times> world" where
  "create_clone provision grp group_snapshot source_group_snapshot_id share_network_id w =
     (case group_snapshot of
        None \<Rightarrow> (Inr (), w)
      | Some snap \<Rightarrow>
          create_member_shares provision grp share_network_id
            (db_group_snapshot_members_get_all w source_group_snapshot_id) w)"

text \<open>Lines 175 to 186: the request goes to the source group's host or to the scheduler.\<close>

definition create_dispatch ::
  "share_group \<Rightarrow> group_snapshot option \<Rightarrow> share_group option \<Rightarrow> share_type list \<Rightarrow>
   share_group_type \<Rightarrow> group_options \<Rightarrow> world \<Rightarrow> world" where
  "create_dispatch grp group_snapshot original_group share_type_objects group_type
       options w =
     (let request_spec = \<lparr> rs_share_group_id = sg_id grp, rs_options = options,
                           rs_share_types = share_type_objects,
                           rs_resource_type = group_type \<rparr>
      in case (group_snapshot, original_group) of
           (Some snap, Some original) \<Rightarrow>
             rpc_cast (BackendCreateShareGroup grp (sg_host original)) w
         | _ \<Rightarrow> rpc_cast (SchedulerCreateShareGroup (sg_id grp) request_spec) w)"

text \<open>
  The whole of \<open>create\<close>. An exception in the \<open>try\<close> runs the handler: the group is
  destroyed, and \<open>save_and_reraise_exception\<close> raises the saved exception again unless the
  handler itself raised.
\<close>

definition create ::
  "provisioner \<Rightarrow> request_context \<Rightarrow> string option \<Rightarrow> string option \<Rightarrow>
   string list option \<Rightarrow> string option \<Rightarrow> string option \<Rightarrow> string option \<Rightarrow> world \<Rightarrow>
   (error + share_group) \<times> world" where
  "create provision ctx name description share_type_ids source_group_snapshot_id
       share_network_id0 share_group_type_id w =
     (case create_validate ctx name description share_type_ids source_group_snapshot_id
             share_network_id0 share_group_type_id w of
        Inl e \<Rightarrow> (Inl e, w)
      | Inr (group_snapshot, original_group, share_network_id, share_type_objects,
             group_type, options) \<Rightarrow>
          (case db_share_group_create options w of
             (Inl e, w1) \<Rightarrow> (Inl e, w1)
           | (Inr grp, w1) \<Rightarrow>
               (case create_clone provision grp group_snapshot source_group_snapshot_id
                       share_network_id w1 of
                  (Inl e, w2) \<Rightarrow>
                    (case db_share_group_destroy (sg_id grp) w2 of
                       (Inl e', w3) \<Rightarrow> (Inl e', w3)
                     | (Inr u, w3) \<Rightarrow> (Inl e, w3))
                | (Inr u, w2) \<Rightarrow>
                    (Inr grp,
                     create_dispatch grp group_snapshot original_group share_type_objects
                       group_type options w2))))"

section \<open>\<open>share_group.api.API.delete\<close>\<close>

definition py_repr :: "string \<Rightarrow> string" where
  "py_repr s = [CHR 0x27] @ s @ [CHR 0x27]"

definition delete ::
  "request_context \<Rightarrow> share_group \<Rightarrow> world \<Rightarrow> (error + unit) \<times> world" where
  "delete ctx grp w =
     (let group_id = sg_id grp
      in if \<not> truthy (sg_host grp) then db_share_group_destroy group_id w
         else
           (let statuses = [STATUS_AVAILABLE, STATUS_ERROR]
            in if sg_status grp \<notin> set statuses
               then (Inl (InvalidShareGroup
                            (''Consistency group status must be one of (''
                             @ py_repr STATUS_AVAILABLE @ '', '' @ py_repr STATUS_ERROR
                             @ '')'')), w)
               else if db_count_group_snapshots_in_share_group w group_id \<noteq> 0
               then (Inl (InvalidShareGroup
                            ''Cannot delete a consistency group with group_snapshots''), w)
               else if db_count_shares_in_share_group w group_id \<noteq> 0
               then (Inl (InvalidShareGroup
                            ''Cannot delete a consistency group with shares''), w)
               else
                 (case db_share_group_update group_id
                         (\<lambda>g. g\<lparr>sg_status := STATUS_DELETING\<rparr>) w of
                    (Inl e, w1) \<Rightarrow> (Inl e, w1)
                  | (Inr group', w1) \<Rightarrow>
                      (Inr (), rpc_cast (BackendDeleteShareGroup group') w1))))"

section \<open>\<open>share_group.api.API.create_group_snapshot\<close>\<close>

text \<open>Lines 272 to 278: every share of the group must be available.\<close>

fun check_shares_available :: "share list \<Rightarrow> error + unit" where
  "check_shares_available [] = Inr ()"
| "check_shares_available (s # rest) =
     (if sh_status s \<noteq> STATUS_AVAILABLE
      then Inl (InvalidShareGroup
                  (''Share '' @ sh_id s @ '' in share group must have status of ''
                   @ STATUS_AVAILABLE @ '' in order to create a group snapshot''))
      else check_shares_available rest)"

text \<open>Lines 283 to 297: one member per share of the group.\<close>

fun create_members ::
  "request_context \<Rightarrow> group_snapshot \<Rightarrow> share list \<Rightarrow> group_snapshot_member list \<Rightarrow>
   world \<Rightarrow> (error + group_snapshot_member list) \<times> world" where
  "create_members ctx snap [] members w = (Inr members, w)"
| "create_members ctx snap (s # rest) members w =
     (let member_options = \<lparr> mo_group_snapshot_id = gs_id snap,
                             mo_user_id = ctx_user_id ctx,
                             mo_project_id = ctx_project_id ctx,
                             mo_status = STATUS_CREATING,
                             mo_size = sh_size s,
                             mo_share_proto = sh_share_proto s,
                             mo_share_id = sh_id s,
                             mo_share_instance_id = sh_instance_id s \<rparr>
      in case db_group_snapshot_member_create member_options w of
           (Inl e, w1) \<Rightarrow> (Inl e, w1)
         | (Inr member, w1) \<Rightarrow> create_members ctx snap rest (members @ [member]) w1)"

definition create_group_snapshot ::
  "request_context \<Rightarrow> string option \<Rightarrow> string option \<Rightarrow> string \<Rightarrow> world \<Rightarrow>
   (error + group_snapshot) \<times> world" where
  "create_group_snapshot ctx name description share_group_id w =
     (let options = \<lparr> so_share_group_id = share_group_id, so_name = name,
                      so_description = description, so_user_id = ctx_user_id ctx,
                      so_project_id = ctx_project_id ctx, so_status = STATUS_CREATING \<rparr>
      in case db_share_group_get w share_group_id of
           Inl e \<Rightarrow> (Inl e, w)
         | Inr grp \<Rightarrow>
             if sg_status grp \<noteq> STATUS_AVAILABLE
             then (Inl (InvalidShareGroup
                          (''Share group status must be '' @ STATUS_AVAILABLE)), w)
             else
               (let group_shares = db_share_get_all_by_share_group_id w share_group_id
                in case check_shares_available group_shares of
                     Inl e \<Rightarrow> (Inl e, w)
                   | Inr u \<Rightarrow>
                       (case db_group_snapshot_create options w of
                          (Inl e, w1) \<Rightarrow> (Inl e, w1)
                        | (Inr snap, w1) \<Rightarrow>
                            (case create_members ctx snap group_shares [] w1 of
                               (Inl e, w2) \<Rightarrow>
                                 (case db_group_snapshot_destroy (gs_id snap) w2 of
                                    (Inl e', w3) \<Rightarrow> (Inl e', w3)
                                  | (Inr u', w3) \<Rightarrow> (Inl e, w3))
                             | (Inr members, w2) \<Rightarrow>
                                 (Inr snap,
                                  rpc_cast (BackendCreateGroupSnapshot snap (sg_host grp))
                                    w2)))))"

section \<open>Reading the results\<close>

text \<open>
  Names for what the statements below speak about: the dictionary a possibly missing
  \<open>extra_specs\<close> stands for, the keys of a dictionary, the list a possibly missing
  \<open>share_type_ids\<close> stands for, and the flag \<open>create\<close> reads from the extra specs of a
  share type.
\<close>

definition spec_dict :: "pyval dict option \<Rightarrow> pyval dict" where
  "spec_dict d = (case d of None \<Rightarrow> [] | Some x \<Rightarrow> x)"

definition dict_keys :: "'v dict \<Rightarrow> string set" where
  "dict_keys d = set (map fst d)"

definition ids_of :: "string list option \<Rightarrow> string list" where
  "ids_of x = (case x of None \<Rightarrow> [] | Some ids \<Rightarrow> ids)"

definition handle_ss :: "pyval dict \<Rightarrow> bool" where
  "handle_ss extra_specs =
     (case bool_from_string (dict_get extra_specs DRIVER_HANDLES_SHARE_SERVERS) False False of
        Inr b \<Rightarrow> b | Inl e \<Rightarrow> False)"

section \<open>Worlds for the examples\<close>

text \<open>
  A store with one placed group \<open>g0\<close> that holds one share, one available snapshot \<open>s0\<close> of
  it with one member, two share types whose \<open>driver_handles_share_servers\<close> values differ,
  and one group type that permits both. \<open>provision_fails\<close> is a Share Provisioning Service
  that refuses every request, \<open>provision_ok\<close> one that accepts every request.
\<close>

definition ctx0 :: request_context where
  "ctx0 = \<lparr> ctx_user_id = ''user'', ctx_project_id = ''project'' \<rparr>"

definition type_true :: share_type where
  "type_true = \<lparr> st_id = ''A'',
                  st_extra_specs = Some [(''driver_handles_share_servers'', PyStr ''True'')] \<rparr>"

definition type_false :: share_type where
  "type_false = \<lparr> st_id = ''B'',
                   st_extra_specs = Some [(''driver_handles_share_servers'', PyStr ''False'')] \<rparr>"

definition group_type0 :: share_group_type where
  "group_type0 = \<lparr> gt_id = ''gt0'', gt_name = ''default'', gt_extra_specs = Some [],
                    gt_share_types = [''A'', ''B''] \<rparr>"

definition group0 :: share_group where
  "group0 = \<lparr> sg_id = ''g0'', sg_name = Some ''parent'', sg_description = None,
               sg_user_id = ''user'', sg_project_id = ''project'', sg_status = ''available'',
               sg_host = Some ''host1'', sg_share_group_type_id = Some ''gt0'',
               sg_source_group_snapshot_id = None, sg_share_network_id = Some ''net0'',
               sg_share_server_id = Some ''server0'', sg_share_types = [''A''] \<rparr>"

definition snapshot0 :: group_snapshot where
  "snapshot0 = \<lparr> gs_id = ''s0'', gs_name = None, gs_description = None, gs_user_id = ''user'',
                  gs_project_id = ''project'', gs_status = ''available'',
                  gs_share_group_id = ''g0'' \<rparr>"

definition share0 :: share where
  "share0 = \<lparr> sh_id = ''sh0'', sh_status = ''available'', sh_share_group_id = Some ''g0'',
               sh_share_type_id = ''A'', sh_size = 1, sh_share_proto = ''NFS'',
               sh_instance_id = ''i0'' \<rparr>"

definition member0 :: group_snapshot_member where
  "member0 = \<lparr> gsm_id = ''m0'', gsm_group_snapshot_id = ''s0'', gsm_user_id = ''user'',
                gsm_project_id = ''project'', gsm_status = ''available'', gsm_size = 1,
                gsm_share_proto = ''NFS'', gsm_share_id = ''sh0'',
                gsm_share_instance_id = ''i0'' \<rparr>"

definition world0 :: world where
  "world0 = \<lparr> share_groups = [group0], group_snapshots = [snapshot0],
               group_snapshot_members = [member0], shares = [share0],
               share_instances = [\<lparr> si_id = ''i0'', si_share_id = ''sh0'' \<rparr>],
               share_types = [type_true, type_false], share_networks = [''net0''],
               share_group_types = [group_type0], casts = [],
               uuid_source = (\<lambda>n. replicate (Suc n) CHR ''u''), uuid_next = 0 \<rparr>"

definition provision_fails :: provisioner where
  "provision_fails request w = Inl (ShareProvisioningError ''quota exceeded'')"

definition provision_ok :: provisioner where
  "provision_ok request w =
     Inr \<lparr> sh_id = ''new-share'', sh_status = ''creating'',
           sh_share_group_id = Some (rq_share_group_id request),
           sh_share_type_id = st_id (rq_share_type request), sh_size = rq_size request,
           sh_share_proto = rq_share_proto request, sh_instance_id = ''new-instance'' \<rparr>"

text \<open>A store that holds the two group types of the test suite and nothing else.\<close>

definition world_types :: world where
  "world_types =
     \<lparr> share_groups = [], group_snapshots = [], group_snapshot_members = [], shares = [],
       share_instances = [], share_types = [], share_networks = [],
       share_group_types =
         [\<lparr> gt_id = ''1'', gt_name = ''test'', gt_extra_specs = Some [],
            gt_share_types = [] \<rparr>,
          \<lparr> gt_id = ''2'', gt_name = ''test_with_extra'',
            gt_extra_specs = Some [(''gold'', PyStr ''True'')], gt_share_types = [] \<rparr>],
       casts = [], uuid_source = (\<lambda>n. replicate (Suc n) CHR ''u''), uuid_next = 0 \<rparr>"

text \<open>
  Variations of the first store: the group without a host, still being created; a share
  that is still being created; the group in error; the snapshot still being created; the group without share
  types, shares and snapshot members; a group type that permits no share type. \<open>clone0\<close> is
  the group a clone of \<open>s0\<close> persists.
\<close>

definition group_unplaced :: share_group where
  "group_unplaced = group0\<lparr>sg_host := None, sg_status := ''creating''\<rparr>"

definition world_unplaced :: world where
  "world_unplaced =
     world0\<lparr>share_groups := [group_unplaced], group_snapshots := [],
            group_snapshot_members := []\<rparr>"

definition world_busy :: world where
  "world_busy = world0\<lparr>shares := [share0\<lparr>sh_status := ''creating''\<rparr>]\<rparr>"

definition group_failed :: share_group where
  "group_failed = group0\<lparr>sg_status := ''error''\<rparr>"

definition world_parent_failed :: world where
  "world_parent_failed = world0\<lparr>share_groups := [group_failed]\<rparr>"

definition snapshot_creating :: group_snapshot where
  "snapshot_creating = snapshot0\<lparr>gs_status := ''creating''\<rparr>"

definition world_snapshot_creating :: world where
  "world_snapshot_creating = world0\<lparr>group_snapshots := [snapshot_creating]\<rparr>"



definition group_type_bare :: share_group_type where
  "group_type_bare = group_type0\<lparr>gt_share_types := []\<rparr>"

definition world_bare :: world where
  "world_bare = world0\<lparr>share_group_types := [group_type_bare]\<rparr>"

definition clone0 :: share_group where
  "clone0 = \<lparr> sg_id = ''u'', sg_name = None, sg_description = None, sg_user_id = ''user'',
               sg_project_id = ''project'', sg_status = ''creating'', sg_host = Some ''host1'',
               sg_share_group_type_id = Some ''gt0'',
               sg_source_group_snapshot_id = Some ''s0'',
               sg_share_network_id = Some ''net0'', sg_share_server_id = Some ''server0'',
               sg_share_types = [''A''] \<rparr>"

section \<open>Unfolding the examples\<close>

lemmas example_defs = world0_def group0_def snapshot0_def share0_def member0_def
  group_type0_def type_true_def type_false_def ctx0_def provision_fails_def provision_ok_def
  world_types_def

lemmas store_defs = db_share_group_get_def db_group_snapshot_get_def db_group_type_get_def
  db_share_network_get_def db_share_get_def db_share_instance_get_def
  db_group_snapshot_members_get_all_def db_share_get_all_by_share_group_id_def
  db_count_group_snapshots_in_share_group_def db_count_shares_in_share_group_def
  db_share_group_create_def db_share_group_destroy_def generate_uuid_def get_share_type_def
  share_api_create_def STATUS_AVAILABLE_def STATUS_CREATING_def STATUS_ERROR_def
  DRIVER_HANDLES_SHARE_SERVERS_def truthy_def

section \<open>Facts about \<open>parse_boolean_extra_spec\<close>\<close>





lemma true_not_false: "lower (take 4 s) = ''true'' \<Longrightarrow> lower (take 5 s) = ''false'' \<Longrightarrow> False"
  by (cases s) (auto simp: lower_def)



























section \<open>Facts about \<open>group_types_diff\<close>\<close>

lemma map_of_dict_set: "map_of (dict_set d k v) = (map_of d)(k \<mapsto> v)"
  by (induction d) (auto simp: fun_eq_iff)

lemma keys_dict_set: "fst ` set (dict_set d k v) = insert k (fst ` set d)"
  by (simp add: dom_map_of_conv_image_fst [symmetric] map_of_dict_set)

lemma distinct_dict_set: "distinct (map fst d) \<Longrightarrow> distinct (map fst (dict_set d k v))"
  by (induction d) (auto simp: keys_dict_set)

lemma py_eq_sym: "py_eq x y = py_eq y x"
  by (cases x; cases y) auto

lemma dict_get_mem: "distinct (map fst d) \<Longrightarrow> (k, v) \<in> set d \<Longrightarrow> dict_get d k = v"
  by (simp add: dict_get_def)

lemma loop1_spec:
  "distinct (map fst items) \<Longrightarrow> distinct (map fst res) \<Longrightarrow>
   dict_diff_loop1 items dict2 (res, eq) = (res', eq') \<Longrightarrow>
     distinct (map fst res')
   \<and> (\<forall>k. map_of res' k = (if k \<in> set (map fst items)
                            then Some (dict_get items k, dict_get dict2 k) else map_of res k))
   \<and> (eq' \<longleftrightarrow> eq \<and> (\<forall>k \<in> set (map fst items).
                 dict_contains dict2 k \<and> py_eq (dict_get items k) (dict_get dict2 k)))"
proof (induction items arbitrary: res eq)
  case Nil
  then show ?case by simp
next
  case (Cons kv items)
  obtain k v where kv: "kv = (k, v)" by (cases kv)
  have d: "distinct (map fst items)" and nk: "k \<notin> set (map fst items)"
    using Cons.prems(1) kv by auto
  have g: "\<And>k'. k' \<in> set (map fst items) \<Longrightarrow> dict_get (kv # items) k' = dict_get items k'"
    using nk kv by (auto simp: dict_get_def)
  have gk: "dict_get (kv # items) k = v" using kv by (simp add: dict_get_def)
  note IH = Cons.IH [OF d distinct_dict_set [OF Cons.prems(2)], of k "(v, dict_get dict2 k)"]
  from Cons.prems(3) kv
  have "dict_diff_loop1 items dict2
          (dict_set res k (v, dict_get dict2 k),
           (if \<not> dict_contains dict2 k \<or> \<not> py_eq v (dict_get dict2 k) then False else eq))
        = (res', eq')"
    by (simp add: Let_def)
  from IH [OF this] show ?case
    using nk g gk kv by (auto simp: map_of_dict_set)
qed

lemma loop2_spec:
  "distinct (map fst items) \<Longrightarrow> distinct (map fst res) \<Longrightarrow>
   dict_diff_loop2 items dict1 (res, eq) = (res', eq') \<Longrightarrow>
     distinct (map fst res')
   \<and> (\<forall>k. map_of res' k = (if k \<in> set (map fst items)
                            then Some (dict_get dict1 k, dict_get items k) else map_of res k))
   \<and> (eq' \<longleftrightarrow> eq \<and> (\<forall>k \<in> set (map fst items).
                 dict_contains dict1 k \<and> py_eq (dict_get dict1 k) (dict_get items k)))"
proof (induction items arbitrary: res eq)
  case Nil
  then show ?case by simp
next
  case (Cons kv items)
  obtain k v where kv: "kv = (k, v)" by (cases kv)
  have d: "distinct (map fst items)" and nk: "k \<notin> set (map fst items)"
    using Cons.prems(1) kv by auto
  have g: "\<And>k'. k' \<in> set (map fst items) \<Longrightarrow> dict_get (kv # items) k' = dict_get items k'"
    using nk kv by (auto simp: dict_get_def)
  have gk: "dict_get (kv # items) k = v" using kv by (simp add: dict_get_def)
  note IH = Cons.IH [OF d distinct_dict_set [OF Cons.prems(2)], of k "(dict_get dict1 k, v)"]
  from Cons.prems(3) kv
  have "dict_diff_loop2 items dict1
          (dict_set res k (dict_get dict1 k, v),
           (if \<not> dict_contains dict1 k \<or> \<not> py_eq (dict_get dict1 k) v then False else eq))
        = (res', eq')"
    by (simp add: Let_def)
  from IH [OF this] show ?case
    using nk g gk kv by (auto simp: map_of_dict_set)
qed

lemma dict_diff_spec:
  assumes d1: "distinct (map fst (spec_dict x1))" and d2: "distinct (map fst (spec_dict x2))"
    and r: "dict_diff x1 x2 = (res, eq)"
  shows "distinct (map fst res)"
    and "map_of res k = (if k \<in> dict_keys (spec_dict x1) \<union> dict_keys (spec_dict x2)
                         then Some (dict_get (spec_dict x1) k, dict_get (spec_dict x2) k) else None)"
    and "eq \<longleftrightarrow> \<not> (\<exists>k \<in> dict_keys (spec_dict x1) \<union> dict_keys (spec_dict x2).
                       k \<notin> dict_keys (spec_dict x1) \<or> k \<notin> dict_keys (spec_dict x2)
                     \<or> \<not> py_eq (dict_get (spec_dict x1) k) (dict_get (spec_dict x2) k))"
proof -
  define a where "a = spec_dict x1"
  define b where "b = spec_dict x2"
  obtain r1 e1 where l1: "dict_diff_loop1 a b ([], True) = (r1, e1)" by (cases "dict_diff_loop1 a b ([], True)")
  have l2: "dict_diff_loop2 b a (r1, e1) = (res, eq)"
    using r l1 by (simp add: dict_diff_def a_def b_def spec_dict_def)
  have s1: "distinct (map fst r1)"
    "\<And>k. map_of r1 k = (if k \<in> set (map fst a) then Some (dict_get a k, dict_get b k) else None)"
    "e1 \<longleftrightarrow> (\<forall>k \<in> set (map fst a). dict_contains b k \<and> py_eq (dict_get a k) (dict_get b k))"
    using loop1_spec [OF _ _ l1] d1 by (simp_all add: a_def)
  have s2: "distinct (map fst res)"
    "\<And>k. map_of res k = (if k \<in> set (map fst b) then Some (dict_get a k, dict_get b k) else map_of r1 k)"
    "eq \<longleftrightarrow> e1 \<and> (\<forall>k \<in> set (map fst b). dict_contains a k \<and> py_eq (dict_get a k) (dict_get b k))"
    using loop2_spec [OF _ s1(1) l2] d2 by (simp_all add: b_def)
  show "distinct (map fst res)" by (rule s2(1))
  show "map_of res k = (if k \<in> dict_keys (spec_dict x1) \<union> dict_keys (spec_dict x2)
                         then Some (dict_get (spec_dict x1) k, dict_get (spec_dict x2) k) else None)"
    unfolding a_def [symmetric] b_def [symmetric] dict_keys_def s2(2) s1(2) by auto
  show "eq \<longleftrightarrow> \<not> (\<exists>k \<in> dict_keys (spec_dict x1) \<union> dict_keys (spec_dict x2).
                       k \<notin> dict_keys (spec_dict x1) \<or> k \<notin> dict_keys (spec_dict x2)
                     \<or> \<not> py_eq (dict_get (spec_dict x1) k) (dict_get (spec_dict x2) k))"
    unfolding a_def [symmetric] b_def [symmetric] dict_keys_def s2(3) s1(3) dict_contains_def
    by auto
qed

text \<open>
  Claim C9. For two group types that resolve, \<open>group_types_diff\<close> succeeds in both
  directions with the same \<open>equal\<close> flag. The two diffs have the same keys, one entry for
  each key of either extra-specs dictionary, holding the value on the first side and the
  value on the second side (\<open>None\<close> for a missing key), and the entries of the reverse
  call are those of the forward call swapped. The flag is false exactly when some key is
  missing on one side or its two values differ.
\<close>

theorem group_types_diff_symmetric:
  assumes a: "get_group_type w id1 = Inr t1" and b: "get_group_type w id2 = Inr t2"
    and ok1: "dict_ok (spec_dict (gt_extra_specs t1))"
    and ok2: "dict_ok (spec_dict (gt_extra_specs t2))"
  shows "\<exists>d12 d21 equal.
           group_types_diff w id1 id2 = Inr ([(''extra_specs'', d12)], equal)
         \<and> group_types_diff w id2 id1 = Inr ([(''extra_specs'', d21)], equal)
         \<and> dict_ok d12 \<and> dict_ok d21
         \<and> dict_keys d12 = dict_keys (spec_dict (gt_extra_specs t1))
                            \<union> dict_keys (spec_dict (gt_extra_specs t2))
         \<and> dict_keys d21 = dict_keys d12
         \<and> (\<forall>k. map_of d12 k =
                  (if k \<in> dict_keys d12
                   then Some (dict_get (spec_dict (gt_extra_specs t1)) k,
                              dict_get (spec_dict (gt_extra_specs t2)) k)
                   else None))
         \<and> (\<forall>k. map_of d21 k = map_option prod.swap (map_of d12 k))
         \<and> (equal = False) =
             (\<exists>k. k \<in> dict_keys d12
                  \<and> (k \<notin> dict_keys (spec_dict (gt_extra_specs t1))
                     \<or> k \<notin> dict_keys (spec_dict (gt_extra_specs t2))
                     \<or> \<not> py_eq (dict_get (spec_dict (gt_extra_specs t1)) k)
                                (dict_get (spec_dict (gt_extra_specs t2)) k)))"
proof -
  define x1 where "x1 = gt_extra_specs t1"
  define x2 where "x2 = gt_extra_specs t2"
  obtain d12 e12 where r12: "dict_diff x1 x2 = (d12, e12)" by (cases "dict_diff x1 x2")
  obtain d21 e21 where r21: "dict_diff x2 x1 = (d21, e21)" by (cases "dict_diff x2 x1")
  have o1: "distinct (map fst (spec_dict x1))" and o2: "distinct (map fst (spec_dict x2))"
    using ok1 ok2 by (simp_all add: dict_ok_def x1_def x2_def)
  note s12 = dict_diff_spec [OF o1 o2 r12]
  note s21 = dict_diff_spec [OF o2 o1 r21]
  have k12: "dict_keys d12 = dict_keys (spec_dict x1) \<union> dict_keys (spec_dict x2)"
  proof -
    have "dom (map_of d12) = dict_keys (spec_dict x1) \<union> dict_keys (spec_dict x2)"
      by (auto simp: s12(2) dom_def)
    then show ?thesis by (simp add: dom_map_of_conv_image_fst dict_keys_def)
  qed
  have k21: "dict_keys d21 = dict_keys (spec_dict x1) \<union> dict_keys (spec_dict x2)"
  proof -
    have "dom (map_of d21) = dict_keys (spec_dict x1) \<union> dict_keys (spec_dict x2)"
      by (auto simp: s21(2) dom_def)
    then show ?thesis by (simp add: dom_map_of_conv_image_fst dict_keys_def)
  qed
  have e: "e21 = e12"
    unfolding s12(3) s21(3) using py_eq_sym by blast
  have g12: "group_types_diff w id1 id2 = Inr ([(''extra_specs'', d12)], e12)"
    using a b r12 by (simp add: group_types_diff_def x1_def x2_def)
  have g21: "group_types_diff w id2 id1 = Inr ([(''extra_specs'', d21)], e12)"
    using a b r21 e by (simp add: group_types_diff_def x1_def x2_def)
  have sw: "map_of d21 k = map_option prod.swap (map_of d12 k)" for k
    unfolding s12(2) s21(2) by auto
  have m: "map_of d12 k = (if k \<in> dict_keys d12
                   then Some (dict_get (spec_dict x1) k, dict_get (spec_dict x2) k)
                   else None)" for k
    unfolding k12 by (rule s12(2))
  have ne: "(e12 = False) = (\<exists>k. k \<in> dict_keys d12
                  \<and> (k \<notin> dict_keys (spec_dict x1) \<or> k \<notin> dict_keys (spec_dict x2)
                     \<or> \<not> py_eq (dict_get (spec_dict x1) k) (dict_get (spec_dict x2) k)))"
    unfolding k12 s12(3) by blast
  show ?thesis
    using g12 g21 s12(1) s21(1) k12 k21 sw m ne
    unfolding x1_def x2_def dict_ok_def by blast
qed

text \<open>The two group types of the test suite: one without extra specs, one with \<open>gold\<close>.\<close>

theorem group_types_diff_symmetric_witness:
  "group_types_diff world_types (Some ''1'') (Some ''2'')
     = Inr ([(''extra_specs'', [(''gold'', (PyNone, PyStr ''True''))])], False)
   \<and> group_types_diff world_types (Some ''2'') (Some ''1'')
     = Inr ([(''extra_specs'', [(''gold'', (PyStr ''True'', PyNone))])], False)
   \<and> (\<exists>d12 d21 equal.
         group_types_diff world_types (Some ''1'') (Some ''2'')
           = Inr ([(''extra_specs'', d12)], equal)
       \<and> group_types_diff world_types (Some ''2'') (Some ''1'')
           = Inr ([(''extra_specs'', d21)], equal)
       \<and> dict_keys d12 = {''gold''} \<and> dict_keys d21 = dict_keys d12
       \<and> (\<forall>k. map_of d21 k = map_option prod.swap (map_of d12 k))
       \<and> equal = False)"
proof -
  define t1 where "t1 = \<lparr> gt_id = ''1'', gt_name = ''test'', gt_extra_specs = Some [],
                          gt_share_types = [] \<rparr>"
  define t2 where "t2 = \<lparr> gt_id = ''2'', gt_name = ''test_with_extra'',
                          gt_extra_specs = Some [(''gold'', PyStr ''True'')],
                          gt_share_types = [] \<rparr>"
  have a: "get_group_type world_types (Some ''1'') = Inr t1"
    unfolding t1_def by code_simp
  have b: "get_group_type world_types (Some ''2'') = Inr t2"
    unfolding t2_def by code_simp
  have o1: "dict_ok (spec_dict (gt_extra_specs t1))"
    by (simp add: t1_def spec_dict_def dict_ok_def)
  have o2: "dict_ok (spec_dict (gt_extra_specs t2))"
    by (simp add: t2_def spec_dict_def dict_ok_def)
  have k: "dict_keys (spec_dict (gt_extra_specs t1)) \<union> dict_keys (spec_dict (gt_extra_specs t2))
           = {''gold''}"
    by (simp add: t1_def t2_def spec_dict_def dict_keys_def)
  have e12: "group_types_diff world_types (Some ''1'') (Some ''2'')
     = Inr ([(''extra_specs'', [(''gold'', (PyNone, PyStr ''True''))])], False)"
    by code_simp
  have e21: "group_types_diff world_types (Some ''2'') (Some ''1'')
     = Inr ([(''extra_specs'', [(''gold'', (PyStr ''True'', PyNone))])], False)"
    by code_simp
  from group_types_diff_symmetric [OF a b o1 o2] obtain d12 d21 equal where
    r: "group_types_diff world_types (Some ''1'') (Some ''2'') = Inr ([(''extra_specs'', d12)], equal)"
      "group_types_diff world_types (Some ''2'') (Some ''1'') = Inr ([(''extra_specs'', d21)], equal)"
      "dict_keys d12 = dict_keys (spec_dict (gt_extra_specs t1))
                            \<union> dict_keys (spec_dict (gt_extra_specs t2))"
      "dict_keys d21 = dict_keys d12"
      "\<forall>k. map_of d21 k = map_option prod.swap (map_of d12 k)"
    by blast
  have "equal = False" using r(1) e12 by simp
  then show ?thesis using e12 e21 r unfolding k by blast
qed

section \<open>Facts about \<open>create_group_snapshot\<close> and \<open>delete\<close>\<close>

lemma check_shares_available_fails:
  "\<exists>s\<in>set xs. sh_status s \<noteq> STATUS_AVAILABLE \<Longrightarrow>
   \<exists>msg. check_shares_available xs = Inl (InvalidShareGroup msg)"
  by (induction xs) auto

text \<open>
  Claim C4. When the group is not available, or some share of the group is not available,
  \<open>create_group_snapshot\<close> raises \<open>InvalidShareGroup\<close> and leaves the world as it was: no
  snapshot and no member is persisted, and nothing is sent.
\<close>

theorem create_group_snapshot_requires_available:
  assumes "db_share_group_get w share_group_id = Inr g"
    and "sg_status g \<noteq> STATUS_AVAILABLE
         \<or> (\<exists>s\<in>set (db_share_get_all_by_share_group_id w share_group_id).
               sh_status s \<noteq> STATUS_AVAILABLE)"
  shows "\<exists>msg. create_group_snapshot ctx name description share_group_id w
               = (Inl (InvalidShareGroup msg), w)"
proof (cases "sg_status g \<noteq> STATUS_AVAILABLE")
  case True
  then show ?thesis using assms(1) by (simp add: create_group_snapshot_def)
next
  case False
  then have "\<exists>s\<in>set (db_share_get_all_by_share_group_id w share_group_id).
               sh_status s \<noteq> STATUS_AVAILABLE" using assms(2) by blast
  from check_shares_available_fails [OF this] obtain msg where
    "check_shares_available (db_share_get_all_by_share_group_id w share_group_id)
       = Inl (InvalidShareGroup msg)" ..
  then show ?thesis using assms(1) False by (simp add: create_group_snapshot_def)
qed

text \<open>A group whose only share is still being created.\<close>

theorem create_group_snapshot_requires_available_witness:
  "db_share_group_get world_busy ''g0'' = Inr group0
   \<and> (\<exists>s\<in>set (db_share_get_all_by_share_group_id world_busy ''g0'').
         sh_status s \<noteq> STATUS_AVAILABLE)
   \<and> (\<exists>msg. create_group_snapshot ctx0 None None ''g0'' world_busy
              = (Inl (InvalidShareGroup msg), world_busy))"
proof -
  have g: "db_share_group_get world_busy ''g0'' = Inr group0" by code_simp
  have s: "\<exists>s\<in>set (db_share_get_all_by_share_group_id world_busy ''g0'').
             sh_status s \<noteq> STATUS_AVAILABLE"
    by code_simp
  show ?thesis
    using g s create_group_snapshot_requires_available [OF g disjI2 [OF s]] by blast
qed


text \<open>
  Claim C2 as stated fails for a group without a host: holding one share, it is destroyed
  and \<open>delete\<close> returns normally.
\<close>

theorem delete_unplaced_counterexample:
  "group_unplaced \<in> set (share_groups world_unplaced)
   \<and> db_count_shares_in_share_group world_unplaced (sg_id group_unplaced) = 1
   \<and> fst (delete ctx0 group_unplaced world_unplaced) = Inr ()
   \<and> share_groups (snd (delete ctx0 group_unplaced world_unplaced)) = []"
  by code_simp

text \<open>
  Claim C2, as amended. For a group that has a host and contains a share or a group
  snapshot, \<open>delete\<close> raises \<open>InvalidShareGroup\<close> and leaves the world, and with it the status
  of the group, as it was.
\<close>

theorem delete_nonempty_with_host:
  assumes "truthy (sg_host g)"
    and "db_count_shares_in_share_group w (sg_id g) \<noteq> 0
         \<or> db_count_group_snapshots_in_share_group w (sg_id g) \<noteq> 0"
  shows "\<exists>msg. delete ctx g w = (Inl (InvalidShareGroup msg), w)"
  using assms by (auto simp: delete_def Let_def)

text \<open>The placed group \<open>g0\<close> holds a share.\<close>

theorem delete_nonempty_with_host_witness:
  "truthy (sg_host group0)
   \<and> db_count_shares_in_share_group world0 (sg_id group0) \<noteq> 0
   \<and> (\<exists>msg. delete ctx0 group0 world0 = (Inl (InvalidShareGroup msg), world0))"
proof -
  have h: "truthy (sg_host group0)" by code_simp
  have c: "db_count_shares_in_share_group world0 (sg_id group0) \<noteq> 0" by code_simp
  show ?thesis using h c delete_nonempty_with_host [OF h disjI1 [OF c]] by blast
qed

lemma find_mem: "x \<in> set xs \<Longrightarrow> P x \<Longrightarrow> \<exists>y. find P xs = Some y"
  by (cases "find P xs") (auto simp: find_None_iff)

text \<open>
  Claim C6. For a group of the store whose host is unset, \<open>delete\<close> succeeds whatever the
  status and the content of the group: the record is destroyed, nothing else changes and
  no message is sent.
\<close>

theorem delete_without_host:
  assumes "\<not> truthy (sg_host g)" and "g \<in> set (share_groups w)"
  shows "delete ctx g w =
           (Inr (), w\<lparr>share_groups := filter (\<lambda>x. sg_id x \<noteq> sg_id g) (share_groups w)\<rparr>)
         \<and> sg_id g \<notin> sg_id ` set (share_groups (snd (delete ctx g w)))
         \<and> casts (snd (delete ctx g w)) = casts w"
proof -
  obtain y where "find (\<lambda>x. sg_id x = sg_id g) (share_groups w) = Some y"
    using find_mem [OF assms(2), of "\<lambda>x. sg_id x = sg_id g"] by auto
  then show ?thesis using assms(1)
    by (auto simp: delete_def db_share_group_destroy_def db_share_group_get_def)
qed

text \<open>The group without a host, still being created, which holds a share.\<close>

theorem delete_without_host_witness:
  "\<not> truthy (sg_host group_unplaced) \<and> group_unplaced \<in> set (share_groups world_unplaced)
   \<and> delete ctx0 group_unplaced world_unplaced
       = (Inr (), world_unplaced\<lparr>share_groups :=
                    filter (\<lambda>x. sg_id x \<noteq> sg_id group_unplaced)
                      (share_groups world_unplaced)\<rparr>)
   \<and> sg_id group_unplaced
        \<notin> sg_id ` set (share_groups (snd (delete ctx0 group_unplaced world_unplaced)))
   \<and> casts (snd (delete ctx0 group_unplaced world_unplaced)) = casts world_unplaced"
proof -
  have h: "\<not> truthy (sg_host group_unplaced)" by code_simp
  have m: "group_unplaced \<in> set (share_groups world_unplaced)"
    by (simp add: world_unplaced_def)
  show ?thesis using h m delete_without_host [OF h m, of ctx0] by blast
qed

section \<open>Facts about \<open>create\<close>\<close>

lemma create_validate_fail:
  "create_validate ctx name description stids src net gtid w = Inl e \<Longrightarrow>
   create provision ctx name description stids src net gtid w = (Inl e, w)"
  by (simp add: create_def)

lemma create_source_fail:
  "create_source w stids src net = Inl e \<Longrightarrow>
   create_validate ctx name description stids src net gtid w = Inl e"
  by (simp add: create_validate_def)

lemma create_share_types_fail:
  "create_source w stids src net = Inr (snap, og, ids, net', srv) \<Longrightarrow>
   create_share_types w net' (ids_of ids) [] None = Inl e \<Longrightarrow>
   create_validate ctx name description stids src net gtid w = Inl e"
  by (simp add: create_validate_def ids_of_def)


text \<open>
  Claim C5 as stated fails: \<open>create\<close> reads the status of the snapshot, not of the
  snapshot's group. With an available snapshot of a group in error, the clone is created.
\<close>

theorem create_parent_not_available_counterexample:
  "db_group_snapshot_get world_parent_failed ''s0'' = Inr snapshot0
   \<and> db_share_group_get world_parent_failed (gs_share_group_id snapshot0) = Inr group_failed
   \<and> sg_status group_failed \<noteq> STATUS_AVAILABLE
   \<and> fst (create provision_ok ctx0 None None None (Some ''s0'') None (Some ''gt0'')
             world_parent_failed) = Inr clone0
   \<and> clone0 \<in> set (share_groups
                     (snd (create provision_ok ctx0 None None None (Some ''s0'') None
                             (Some ''gt0'') world_parent_failed)))"
  by code_simp

text \<open>
  Claim C5, as amended. When the source group snapshot exists and is not available,
  \<open>create\<close> raises \<open>InvalidGroupSnapshot\<close> and changes nothing.
\<close>

theorem create_snapshot_not_available:
  assumes "source_group_snapshot_id = Some snapshot_id" and "snapshot_id \<noteq> []"
    and "db_group_snapshot_get w snapshot_id = Inr snap"
    and "gs_status snap \<noteq> STATUS_AVAILABLE"
  shows "\<exists>msg. create provision ctx name description share_type_ids source_group_snapshot_id
                 share_network_id share_group_type_id w = (Inl (InvalidGroupSnapshot msg), w)"
proof -
  have "create_source w share_type_ids source_group_snapshot_id share_network_id
        = Inl (InvalidGroupSnapshot (''Share group snapshot status must be '' @ STATUS_AVAILABLE))"
    using assms by (simp add: create_source_def)
  then show ?thesis using create_validate_fail [OF create_source_fail] by blast
qed

text \<open>A source snapshot that is still being created.\<close>

theorem create_snapshot_not_available_witness:
  "db_group_snapshot_get world_snapshot_creating ''s0'' = Inr snapshot_creating
   \<and> gs_status snapshot_creating \<noteq> STATUS_AVAILABLE
   \<and> (\<exists>msg. create provision_ok ctx0 None None None (Some ''s0'') None (Some ''gt0'')
               world_snapshot_creating
              = (Inl (InvalidGroupSnapshot msg), world_snapshot_creating))"
proof -
  have g: "db_group_snapshot_get world_snapshot_creating ''s0'' = Inr snapshot_creating"
    by code_simp
  have s: "gs_status snapshot_creating \<noteq> STATUS_AVAILABLE" by code_simp
  have n: "''s0'' \<noteq> []" by simp
  show ?thesis using g s create_snapshot_not_available [OF refl n g s] by blast
qed

lemma get_share_type_error: "get_share_type w i = Inl e \<Longrightarrow> is_ShareTypeNotFound e"
  by (auto simp: get_share_type_def split: option.splits)

lemma bool_from_string_nonstrict: "\<exists>b. bool_from_string x False d = Inr b"
  by (cases x) (auto simp: bool_from_string_def Let_def)

lemma bool_from_string_handle_ss:
  "bool_from_string (dict_get es DRIVER_HANDLES_SHARE_SERVERS) False False = Inr (handle_ss es)"
  using bool_from_string_nonstrict [of "dict_get es DRIVER_HANDLES_SHARE_SERVERS" False]
  by (auto simp: handle_ss_def)

lemma create_share_types_error:
  "create_share_types w net ids objs dhss = Inl e \<Longrightarrow> is_InvalidInput e"
proof (induction ids arbitrary: objs dhss)
  case Nil
  then show ?case by simp
next
  case (Cons i ids)
  show ?case
  proof (cases "get_share_type w i")
    case (Inl e')
    then show ?thesis using Cons.prems get_share_type_error [OF Inl] by auto
  next
    case (Inr t)
    then show ?thesis using Cons.prems Cons.IH
      by (auto simp: bool_from_string_handle_ss split: option.splits if_splits)
  qed
qed

lemma create_share_types_flag:
  "create_share_types w net ids objs dhss = Inr (objs', dhss') \<Longrightarrow>
     (dhss \<noteq> None \<longrightarrow> dhss' = dhss)
   \<and> (\<forall>i\<in>set ids. \<forall>t es. get_share_type w i = Inr t \<longrightarrow> st_extra_specs t = Some es
          \<longrightarrow> es \<noteq> [] \<longrightarrow> dhss' = Some (handle_ss es))"
proof (induction ids arbitrary: objs dhss)
  case Nil
  then show ?case by simp
next
  case (Cons i ids)
  show ?case
  proof (cases "get_share_type w i")
    case (Inl e')
    then show ?thesis using Cons.prems by (auto split: if_splits)
  next
    case (Inr t)
    show ?thesis
    proof (cases "st_extra_specs t")
      case None
      then show ?thesis using Cons.prems Inr Cons.IH [of "objs @ [t]" dhss] by auto
    next
      case (Some es)
      show ?thesis
      proof (cases "es = []")
        case True
        then show ?thesis using Cons.prems Inr Some Cons.IH [of "objs @ [t]" dhss] by auto
      next
        case False
        then have r: "create_share_types w net ids (objs @ [t]) (Some (handle_ss es)) = Inr (objs', dhss')"
          and c: "dhss = None \<or> dhss = Some (handle_ss es)"
          using Cons.prems Inr Some
          by (auto simp: bool_from_string_handle_ss split: if_splits)
        from Cons.IH [OF r] c show ?thesis using Inr Some False by auto
      qed
    qed
  qed
qed

text \<open>
  Claim C3. Once the source step has passed, if two of the share type ids, at any two
  positions of the list, resolve to share types whose \<open>driver_handles_share_servers\<close>
  values read as different booleans, \<open>create\<close> raises \<open>InvalidInput\<close> and changes nothing.
\<close>

theorem create_conflicting_share_types:
  assumes src: "create_source w share_type_ids source_group_snapshot_id share_network_id
                = Inr (snap, og, ids, net', srv)"
    and i: "i \<in> set (ids_of ids)" and j: "j \<in> set (ids_of ids)"
    and ti: "get_share_type w i = Inr ti" and tj: "get_share_type w j = Inr tj"
    and ei: "st_extra_specs ti = Some ei" and ej: "st_extra_specs tj = Some ej"
    and vi: "map_of ei DRIVER_HANDLES_SHARE_SERVERS = Some vi"
    and vj: "map_of ej DRIVER_HANDLES_SHARE_SERVERS = Some vj"
    and conflict: "bool_from_string vi False False \<noteq> bool_from_string vj False False"
  shows "\<exists>msg. create provision ctx name description share_type_ids source_group_snapshot_id
                 share_network_id share_group_type_id w = (Inl (InvalidInput msg), w)"
proof -
  have ne: "ei \<noteq> []" "ej \<noteq> []" using vi vj by auto
  have h: "handle_ss ei \<noteq> handle_ss ej"
    using conflict vi vj bool_from_string_handle_ss [of ei] bool_from_string_handle_ss [of ej]
    by (simp add: dict_get_def)
  have "\<exists>e. create_share_types w net' (ids_of ids) [] None = Inl e"
  proof (cases "create_share_types w net' (ids_of ids) [] None")
    case (Inl e)
    then show ?thesis by blast
  next
    case (Inr r)
    obtain objs' dhss' where "r = (objs', dhss')" by (cases r)
    from create_share_types_flag [OF Inr [unfolded this]]
    have "dhss' = Some (handle_ss ei)" "dhss' = Some (handle_ss ej)"
      using i j ti tj ei ej ne by blast+
    then show ?thesis using h by simp
  qed
  then obtain e where e: "create_share_types w net' (ids_of ids) [] None = Inl e" ..
  from create_share_types_error [OF e] obtain msg where "e = InvalidInput msg"
    by (cases e) auto
  then show ?thesis
    using create_validate_fail [OF create_share_types_fail [OF src e]] by blast
qed


text \<open>The two share types in either order, with and without a share network.\<close>

theorem create_conflicting_share_types_witness:
  "(\<exists>msg. create provision_ok ctx0 None None (Some [''A'', ''B'']) None (Some ''net0'')
            (Some ''gt0'') world0 = (Inl (InvalidInput msg), world0))
   \<and> (\<exists>msg. create provision_ok ctx0 None None (Some [''B'', ''A'']) None (Some ''net0'')
            (Some ''gt0'') world0 = (Inl (InvalidInput msg), world0))
   \<and> (\<exists>msg. create provision_ok ctx0 None None (Some [''B'', ''A'']) None None
            (Some ''gt0'') world0 = (Inl (InvalidInput msg), world0))"
proof -
  have src: "create_source world0 ids None net = Inr (None, None, ids, net, None)" for ids net
    by (simp add: create_source_def)
  have m: "''A'' \<in> set (ids_of (Some [''A'', ''B'']))" "''B'' \<in> set (ids_of (Some [''A'', ''B'']))"
    "''A'' \<in> set (ids_of (Some [''B'', ''A'']))" "''B'' \<in> set (ids_of (Some [''B'', ''A'']))"
    by (simp_all add: ids_of_def)
  have ta: "get_share_type world0 ''A'' = Inr type_true" by code_simp
  have tb: "get_share_type world0 ''B'' = Inr type_false" by code_simp
  have ea: "st_extra_specs type_true = Some [(''driver_handles_share_servers'', PyStr ''True'')]"
    by (simp add: type_true_def)
  have eb: "st_extra_specs type_false = Some [(''driver_handles_share_servers'', PyStr ''False'')]"
    by (simp add: type_false_def)
  have va: "map_of [(''driver_handles_share_servers'', PyStr ''True'')]
              DRIVER_HANDLES_SHARE_SERVERS = Some (PyStr ''True'')"
    by (simp add: DRIVER_HANDLES_SHARE_SERVERS_def)
  have vb: "map_of [(''driver_handles_share_servers'', PyStr ''False'')]
              DRIVER_HANDLES_SHARE_SERVERS = Some (PyStr ''False'')"
    by (simp add: DRIVER_HANDLES_SHARE_SERVERS_def)
  have c: "bool_from_string (PyStr ''True'') False False
           \<noteq> bool_from_string (PyStr ''False'') False False"
    by code_simp
  show ?thesis
    using create_conflicting_share_types [OF src m(1) m(2) ta tb ea eb va vb c]
      create_conflicting_share_types [OF src m(3) m(4) ta tb ea eb va vb c]
    by blast
qed

lemma share_api_create_groups:
  "share_api_create provision rq w = (r, w') \<Longrightarrow> share_groups w' = share_groups w"
  by (auto simp: share_api_create_def split: sum.splits)

lemma create_member_shares_groups:
  "create_member_shares provision g net members w = (r, w') \<Longrightarrow>
   share_groups w' = share_groups w"
proof (induction members arbitrary: w)
  case Nil
  then show ?case by simp
next
  case (Cons m members)
  then show ?case
    by (auto split: sum.splits prod.splits dest: share_api_create_groups)
qed

lemma create_clone_groups:
  "create_clone provision g snap src net w = (r, w') \<Longrightarrow> share_groups w' = share_groups w"
  by (auto simp: create_clone_def split: option.splits dest: create_member_shares_groups)

lemma db_share_group_create_Inr:
  assumes "db_share_group_create opts w = (Inr g, w1)"
  shows "share_groups w1 = share_groups w @ [g]"
    and "sg_id g \<notin> sg_id ` set (share_groups w)"
    and "sg_share_types g = o_share_types opts"
    and "sg_share_network_id g = o_share_network_id opts"
    and "sg_share_server_id g = o_share_server_id opts"
    and "sg_host g = o_host opts"
    and "casts w1 = casts w"
  using assms
  by (auto simp: db_share_group_create_def generate_uuid_def Let_def split: if_splits)

lemma find_last_new:
  "P g \<Longrightarrow> \<exists>y. find P (xs @ [g]) = Some y"
  by (cases "find P (xs @ [g])") (auto simp: find_None_iff)

text \<open>
  Claim C1. When the validation has passed and the group has been persisted, an exception
  from the creation of the members' shares is the exception \<open>create\<close> raises, and the new
  group is gone from the store: the groups are those the call started with.
\<close>

theorem create_compensates:
  assumes v: "create_validate ctx name description share_type_ids source_group_snapshot_id
                share_network_id share_group_type_id w
              = Inr (snap, og, net', objs, gt, opts)"
    and c: "db_share_group_create opts w = (Inr g, w1)"
    and f: "create_clone provision g snap source_group_snapshot_id net' w1 = (Inl e, w2)"
  shows "fst (create provision ctx name description share_type_ids source_group_snapshot_id
                share_network_id share_group_type_id w) = Inl e
       \<and> sg_id g \<notin> sg_id ` set (share_groups
                 (snd (create provision ctx name description share_type_ids
                         source_group_snapshot_id share_network_id share_group_type_id w)))
       \<and> share_groups (snd (create provision ctx name description share_type_ids
                         source_group_snapshot_id share_network_id share_group_type_id w))
           = share_groups w"
proof -
  note g = db_share_group_create_Inr [OF c]
  have w2: "share_groups w2 = share_groups w @ [g]"
    using create_clone_groups [OF f] g(1) by simp
  obtain y where y: "find (\<lambda>x. sg_id x = sg_id g) (share_groups w2) = Some y"
    unfolding w2 using find_last_new [of "\<lambda>x. sg_id x = sg_id g" g] by auto
  have "\<forall>x\<in>set (share_groups w). sg_id x \<noteq> sg_id g" using g(2) by (metis image_eqI)
  then have fl: "filter (\<lambda>x. sg_id x \<noteq> sg_id g) (share_groups w2) = share_groups w"
    unfolding w2 by (simp add: filter_id_conv)
  have d: "db_share_group_destroy (sg_id g) w2 = (Inr (), w2\<lparr>share_groups := share_groups w\<rparr>)"
    using y fl by (simp add: db_share_group_destroy_def db_share_group_get_def)
  have "create provision ctx name description share_type_ids source_group_snapshot_id
          share_network_id share_group_type_id w = (Inl e, w2\<lparr>share_groups := share_groups w\<rparr>)"
    using v c f d by (simp add: create_def)
  then show ?thesis using g(2) by simp
qed

text \<open>A clone of \<open>s0\<close> whose only share is refused.\<close>

theorem create_compensates_witness:
  "fst (create provision_fails ctx0 None None None (Some ''s0'') None (Some ''gt0'') world0)
     = Inl (ShareProvisioningError ''quota exceeded'')
   \<and> ''u'' \<notin> sg_id ` set (share_groups
                (snd (create provision_fails ctx0 None None None (Some ''s0'') None
                        (Some ''gt0'') world0)))
   \<and> share_groups (snd (create provision_fails ctx0 None None None (Some ''s0'') None
                          (Some ''gt0'') world0)) = [group0]"
proof -
  define opts where "opts = create_options ctx0 None None (Some [''A'']) (Some ''s0'')
                               (Some ''net0'') (Some ''server0'') (Some ''gt0'') group_type0
                               (Some group0)"
  define w1 where "w1 = world0\<lparr>uuid_next := Suc 0, share_groups := [group0, clone0]\<rparr>"
  have v: "create_validate ctx0 None None None (Some ''s0'') None (Some ''gt0'') world0
           = Inr (Some snapshot0, Some group0, Some ''net0'', [type_true], group_type0, opts)"
    unfolding opts_def by code_simp
  have c: "db_share_group_create opts world0 = (Inr clone0, w1)"
    by (simp add: opts_def w1_def create_options_def clone0_def store_defs example_defs Let_def)
  have f: "create_clone provision_fails clone0 (Some snapshot0) (Some ''s0'') (Some ''net0'') w1
           = (Inl (ShareProvisioningError ''quota exceeded''), w1)"
    by (simp add: w1_def create_clone_def store_defs example_defs)
  have i: "sg_id clone0 = ''u''" by (simp add: clone0_def)
  have g: "share_groups world0 = [group0]" by (simp add: world0_def)
  show ?thesis using create_compensates [OF v c f] unfolding i g by blast
qed


lemma create_options_fields:
  "o_share_network_id (create_options ctx name description ids src net srv gtid gt og) = net"
  "o_share_server_id (create_options ctx name description ids src net srv gtid gt og) = srv"
  "o_share_types (create_options ctx name description ids src net srv gtid gt og)
     = (if ids_of ids = [] then remdups (gt_share_types gt) else ids_of ids)"
  "o_host (create_options ctx name description ids src net srv gtid gt og)
     = (case og of None \<Rightarrow> None | Some x \<Rightarrow> sg_host x)"
  by (auto simp: create_options_def ids_of_def split: option.splits)










lemma create_source_none:
  "\<not> truthy src \<Longrightarrow> create_source w stids src net = Inr (None, None, stids, net, None)"
  by (auto simp: create_source_def truthy_def split: option.splits)

lemma create_dispatch_groups:
  "share_groups (create_dispatch g snap og objs gt opts w) = share_groups w"
  by (auto simp: create_dispatch_def rpc_cast_def Let_def split: option.splits)

text \<open>
  Claim C10. With no share type ids and no source group snapshot, a call whose share
  network (if any) and group type exist and whose new identifier is fresh succeeds; the
  persisted group has exactly the share types the group type permits, and none when the
  group type permits none.
\<close>

theorem create_defaults_share_types:
  assumes ids: "share_type_ids = None \<or> share_type_ids = Some []"
    and src: "\<not> truthy source_group_snapshot_id"
    and net: "\<not> truthy share_network_id
              \<or> (\<exists>n. share_network_id = Some n \<and> n \<in> set (share_networks w))"
    and gt: "db_group_type_get w share_group_type_id = Inr gt"
    and fresh: "uuid_source w (uuid_next w) \<notin> sg_id ` set (share_groups w)"
  shows "\<exists>g w'. create provision ctx name description share_type_ids source_group_snapshot_id
                  share_network_id share_group_type_id w = (Inr g, w')
              \<and> g \<in> set (share_groups w')
              \<and> set (sg_share_types g) = set (gt_share_types gt)
              \<and> distinct (sg_share_types g)
              \<and> (gt_share_types gt = [] \<longrightarrow> sg_share_types g = [])"
proof -
  define opts where "opts = create_options ctx name description share_type_ids
     source_group_snapshot_id share_network_id None share_group_type_id gt None"
  have l: "ids_of share_type_ids = []" using ids by (auto simp: ids_of_def)
  have n: "create_check_share_network w share_network_id = Inr ()"
    using net
    by (auto simp: create_check_share_network_def db_share_network_get_def truthy_def
             split: option.splits)
  have t: "create_group_type w share_group_type_id = Inr gt"
    using gt by (simp add: create_group_type_def)
  have v: "create_validate ctx name description share_type_ids source_group_snapshot_id
             share_network_id share_group_type_id w = Inr (None, None, share_network_id, [], gt, opts)"
    using l n t by (simp add: create_validate_def create_source_none [OF src] opts_def
        ids_of_def [symmetric])
  obtain r w1 where c: "db_share_group_create opts w = (r, w1)"
    by (cases "db_share_group_create opts w")
  then obtain g where r: "r = Inr g"
    using fresh by (auto simp: db_share_group_create_def generate_uuid_def Let_def split: if_splits)
  note g = db_share_group_create_Inr [OF c [unfolded r]]
  have st: "sg_share_types g = remdups (gt_share_types gt)"
    using g(3) l by (simp add: opts_def create_options_fields)
  have "create provision ctx name description share_type_ids source_group_snapshot_id
          share_network_id share_group_type_id w
        = (Inr g, create_dispatch g None None [] gt opts w1)"
    using v c r by (simp add: create_def create_clone_def)
  moreover have "g \<in> set (share_groups (create_dispatch g None None [] gt opts w1))"
    using g(1) by (simp add: create_dispatch_groups)
  ultimately show ?thesis using st by auto
qed


text \<open>A group type that permits two share types, and one that permits none.\<close>

theorem create_defaults_share_types_witness:
  "(\<exists>g w'. create provision_ok ctx0 None None None None None (Some ''gt0'') world0 = (Inr g, w')
            \<and> g \<in> set (share_groups w') \<and> set (sg_share_types g) = {''A'', ''B''})
   \<and> (\<exists>g w'. create provision_ok ctx0 None None (Some []) (Some []) (Some ''net0'')
                 (Some ''gt0'') world_bare = (Inr g, w')
            \<and> g \<in> set (share_groups w') \<and> sg_share_types g = [])"
proof -
  have i: "(None :: string list option) = None \<or> None = Some []"
    "Some ([] :: string list) = None \<or> Some ([] :: string list) = Some []" by simp_all
  have s: "\<not> truthy None" "\<not> truthy (Some [])" by (simp_all add: truthy_def)
  have n: "\<not> truthy None \<or> (\<exists>n. None = Some n \<and> n \<in> set (share_networks world0))"
    "\<not> truthy (Some ''net0'')
     \<or> (\<exists>n. Some ''net0'' = Some n \<and> n \<in> set (share_networks world_bare))"
    by (simp_all add: truthy_def world_bare_def world0_def)
  have t: "db_group_type_get world0 (Some ''gt0'') = Inr group_type0"
    "db_group_type_get world_bare (Some ''gt0'') = Inr group_type_bare" by code_simp+
  have u: "uuid_source world0 (uuid_next world0) \<notin> sg_id ` set (share_groups world0)"
    "uuid_source world_bare (uuid_next world_bare) \<notin> sg_id ` set (share_groups world_bare)"
    by (simp_all add: world_bare_def world0_def group0_def)
  have a: "set (gt_share_types group_type0) = {''A'', ''B''}" by (simp add: group_type0_def)
  have b: "gt_share_types group_type_bare = []"
    by (simp add: group_type_bare_def group_type0_def)
  show ?thesis
    using create_defaults_share_types [OF i(1) s(1) n(1) t(1) u(1), of provision_ok ctx0 None None]
      create_defaults_share_types [OF i(2) s(2) n(2) t(2) u(2), of provision_ok ctx0 None None]
    unfolding a b by blast
qed

end
